theory Spec2Isabelle
  imports Complex_Main
begin

section \<open>Python values and exceptions\<close>

text \<open>
  A model of the irrigation controller: the simulated plant and pump (Plant.py), the
  calibration engine (Optimisation.py), the cached weather data (Weather.py), and the
  control core of App.py with its decision step, watering procedure and monitor loop.

  Each method becomes a function from the state before to the state after. A computation
  that may raise returns \<open>error + 'a\<close>, with \<open>Inl\<close> for the exception; the exceptions
  are those that \<open>except Exception\<close> catches. Python numbers (int and float alike) are
  modelled as reals, and a \<open>datetime\<close> as a number of seconds. What \<open>log\<close> prints is not
  part of the state. The database is modelled by the rows the code reads and writes.
  \<open>PrismaError\<close> stands for the exception of a database call that cannot be carried out,
  whatever its class.

  The arithmetic of the model is that of the reals. The code computes in binary floating
  point, which gives the same results wherever every intermediate value is represented
  exactly, as it is for the numbers at which the statements below are evaluated; at the
  very boundary of a comparison the two can differ.
\<close>

datatype error = AttributeError | TypeError | ZeroDivisionError | ValueError | PrismaError

type_synonym datetime = int

section \<open>Plant.py\<close>

record Pump =
  is_on :: bool
  cancel_requested :: bool

record Plant =
  soil_moisture_level :: real
  pump :: Pump
  running :: bool
  moisture_depletion_rate :: real

definition Pump_init :: Pump where
  "Pump_init = \<lparr>is_on = False, cancel_requested = False\<rparr>"

definition Plant_init :: "real \<Rightarrow> Plant" where
  "Plant_init initial_soil_moisture =
     \<lparr>soil_moisture_level = initial_soil_moisture, pump = Pump_init, running = True,
      moisture_depletion_rate = 0.1\<rparr>"

definition get_soil_moisture :: "Plant \<Rightarrow> real" where
  "get_soil_moisture p = soil_moisture_level p"

text \<open>
  One pass through the body of the loop of \<open>Plant.decrease_soil_moisture\<close>: subtract the
  depletion rate, then reset a negative level to 0.
\<close>

definition decrease_soil_moisture_step :: "Plant \<Rightarrow> Plant" where
  "decrease_soil_moisture_step p =
     (let l = soil_moisture_level p - moisture_depletion_rate p
      in p\<lparr>soil_moisture_level := (if l < 0 then 0 else l)\<rparr>)"

text \<open>
  The loop itself runs for as long as \<open>running\<close> holds; nothing in the repository clears
  that flag. The first argument bounds the number of passes observed.
\<close>

fun decrease_soil_moisture :: "nat \<Rightarrow> Plant \<Rightarrow> Plant" where
  "decrease_soil_moisture 0 p = p"
| "decrease_soil_moisture (Suc n) p =
     (if running p then decrease_soil_moisture n (decrease_soil_moisture_step p) else p)"


text \<open>
  \<open>Pump.turn_on\<close> sets the two flags and starts \<open>_run_pump\<close> on a thread of its own; the
  thread's work is \<open>run_pump\<close> below.
\<close>

definition turn_on :: "Plant \<Rightarrow> Plant" where
  "turn_on p = p\<lparr>pump := (pump p)\<lparr>is_on := True, cancel_requested := False\<rparr>\<rparr>"

definition add_water :: "Plant \<Rightarrow> Plant" where
  "add_water p =
     (if is_on (pump p)
      then (let l = soil_moisture_level p + 0.5
            in p\<lparr>soil_moisture_level := (if l > 1.0 then 1.0 else l)\<rparr>)
      else p)"

definition cancel :: "Pump \<Rightarrow> Pump" where
  "cancel pm = (if is_on pm then pm\<lparr>cancel_requested := True\<rparr> else pm)"


section \<open>The database and the environment\<close>

text \<open>
  The Prisma tables the modelled code touches: the \<open>system_enabled\<close> column of the settings
  row, the \<open>water_per_percent\<close> column of the optimisation row with id 1 (\<open>None\<close> while
  the row does not exist), and the cached weather record.
\<close>

record WeatherData =
  createdAt :: datetime
  mmOfRainfall :: real
  rainfallProbability :: real
  sunrise :: datetime
  sunset :: datetime

record Database =
  settings_system_enabled :: bool
  water_per_percent :: "real option"
  weatherdata :: "WeatherData option"

text \<open>
  While the control task is suspended in \<open>asyncio.sleep\<close>, the pump thread and the
  depletion thread work on the plant. Their effect during a sleep of a given number of
  seconds is a parameter of the model, and every statement below holds for each choice
  of it.
\<close>

type_synonym env = "real \<Rightarrow> Plant \<Rightarrow> Plant"

section \<open>The objects of App.py and Optimisation.py\<close>

record Optimisation =
  optimisation_data :: "real list"
  data_points_required :: int
  threshold_tolerance :: real

record PostponedWater =
  postponed :: bool
  postponedAt :: "datetime option"
  postponedBy :: "string option"

text \<open>
  The attributes of \<open>System\<close>. \<open>__init__\<close> assigns all of them but \<open>enabled\<close>, which exists
  only once \<open>initialize\<close> or \<open>disable_system\<close> has assigned it: \<open>None\<close> stands for the
  attribute that is not there. For \<open>plant\<close>, \<open>optimisation\<close> and \<open>location_code\<close>, \<open>None\<close> is
  Python's \<open>None\<close>.
\<close>

record System =
  check_rate :: real
  operating_settings_desired_moisture_level :: real
  operating_settings_water_cycle_length :: real
  operating_settings_water_threshold :: real
  operating_hours_mode :: string
  operating_hours_start :: string
  operating_hours_end :: string
  post_code :: int
  location_code :: "int option"
  weather_detection_enabled :: bool
  weather_detection_mode :: string
  weather_detection_postpone_percentage :: real
  weather_detection_postpone_mm :: real
  danger_mode_enabled :: bool
  danger_mode_level :: real
  danger_mode_bypass_enabled :: bool
  danger_mode_bypass_water_percentage :: real
  desired_soil_moisture :: real
  water_cycle_length :: real
  danger_soil_moisture :: real
  system_enabled :: bool
  system_setup :: bool
  is_setup :: bool
  cancelRequested :: bool
  allow_optimisation :: bool
  optimisation :: "Optimisation option"
  optimisation_data_collected :: int
  plant :: "Plant option"
  postponedWater :: PostponedWater
  status :: string
  enabled :: "bool option"

definition Optimisation_init :: Optimisation where
  "Optimisation_init =
     \<lparr>optimisation_data = [], data_points_required = 10, threshold_tolerance = 0.05\<rparr>"

definition System_init :: System where
  "System_init =
     \<lparr>check_rate = 60000,
      operating_settings_desired_moisture_level = 100,
      operating_settings_water_cycle_length = 20,
      operating_settings_water_threshold = 20,
      operating_hours_mode = ''auto'',
      operating_hours_start = ''06:00'',
      operating_hours_end = ''18:00'',
      post_code = 2000,
      location_code = None,
      weather_detection_enabled = True,
      weather_detection_mode = ''AND'',
      weather_detection_postpone_percentage = 35,
      weather_detection_postpone_mm = 5,
      danger_mode_enabled = True,
      danger_mode_level = 10,
      danger_mode_bypass_enabled = True,
      danger_mode_bypass_water_percentage = 40,
      desired_soil_moisture = 100,
      water_cycle_length = 5,
      danger_soil_moisture = 20,
      system_enabled = False,
      system_setup = False,
      is_setup = False,
      cancelRequested = False,
      allow_optimisation = False,
      optimisation = None,
      optimisation_data_collected = 0,
      plant = None,
      postponedWater = \<lparr>postponed = False, postponedAt = None, postponedBy = None\<rparr>,
      status = ''INIT'',
      enabled = None\<rparr>"

text \<open>\<open>await asyncio.sleep(seconds)\<close>: the environment acts on the plant, if there is one.\<close>

definition sleep :: "env \<Rightarrow> real \<Rightarrow> System \<Rightarrow> System" where
  "sleep ev seconds s = s\<lparr>plant := map_option (ev seconds) (plant s)\<rparr>"

section \<open>Optimisation.py\<close>

text \<open>
  The methods of \<open>Optimisation\<close> report through \<open>self.system.add_log_entry\<close>. Class
  \<open>System\<close> defines no such attribute (its logging is the module function \<open>log\<close>), so
  the attribute lookup raises \<open>AttributeError\<close> before the arguments are evaluated.
\<close>

definition add_log_entry :: "System \<Rightarrow> string \<Rightarrow> error + unit" where
  "add_log_entry s log_type = Inl AttributeError"

text \<open>
  \<open>save_optimisation_data\<close> calls \<open>upsert\<close> on the client that Optimisation.py creates
  for itself at line 5. Nothing connects that client: the \<open>connect\<close> of App.py (line 303)
  is on the client of App.py. The call also passes \<open>update\<close> and \<open>create\<close> where the other
  write of the repository (\<open>update(where, data)\<close> at App.py line 215) passes \<open>data\<close>. The
  call raises, and no row is written.
\<close>

definition save_optimisation_data ::
  "real \<Rightarrow> Database \<Rightarrow> (error + unit) \<times> Database" where
  "save_optimisation_data wpp d = (Inl PrismaError, d)"

text \<open>
  \<open>evaluate_optimisation\<close>. Dividing by \<open>len\<close> of an empty list raises
  \<open>ZeroDivisionError\<close>. A method of the \<open>Optimisation\<close> object needs that object. An
  exception of \<open>save_optimisation_data\<close> leaves the method before the line that reports
  success. The mean, the deviations and the bound are computed here in the reals; for
  samples whose deviation lies exactly on the bound the code's floating point may take
  the other branch.
\<close>

definition evaluate_optimisation ::
  "System \<Rightarrow> Database \<Rightarrow> (error + unit) \<times> System \<times> Database" where
  "evaluate_optimisation s d =
     (case optimisation s of
        None \<Rightarrow> (Inl AttributeError, s, d)
      | Some ob \<Rightarrow>
          if length (optimisation_data ob) = 0 then (Inl ZeroDivisionError, s, d)
          else
            (let average_water_per_percent =
                   sum_list (optimisation_data ob) / real (length (optimisation_data ob));
                 deviations = map (\<lambda>x. \<bar>x - average_water_per_percent\<bar>) (optimisation_data ob)
             in if list_all (\<lambda>dv. dv \<le> threshold_tolerance ob * average_water_per_percent)
                     deviations
                then (case save_optimisation_data average_water_per_percent d of
                        (Inl e, d') \<Rightarrow> (Inl e, s, d')
                      | (Inr u, d') \<Rightarrow> (add_log_entry s ''SUCCESS'', s, d'))
                else (add_log_entry s ''WARNING'', s, d)))"

text \<open>
  \<open>collect_data\<close>. The argument \<open>current_moisture\<close> is not read by the body; both readings
  that enter \<open>increase\<close> are taken by the method itself, one on entry and one after its
  own two sleeps. The parameter \<open>water_cycle_length\<close> is written \<open>cycle_length\<close> here, the
  longer name being the attribute of \<open>System\<close>.
\<close>

definition collect_data ::
  "env \<Rightarrow> real \<Rightarrow> real \<Rightarrow> System \<Rightarrow> Database \<Rightarrow> (error + unit) \<times> System \<times> Database" where
  "collect_data ev cycle_length current_moisture s d =
     (case (optimisation s, plant s) of
        (Some ob, Some p0) \<Rightarrow>
          (let initial_moisture = get_soil_moisture p0;
               s1 = sleep ev 60 (sleep ev cycle_length s)
           in case plant s1 of
                None \<Rightarrow> (Inl AttributeError, s1, d)
              | Some p1 \<Rightarrow>
                  (let final_moisture = get_soil_moisture p1;
                       increase = final_moisture - initial_moisture
                   in if increase > 0
                      then
                        (let water_per_percent = cycle_length / increase;
                             s2 = s1\<lparr>optimisation :=
                                      Some (ob\<lparr>optimisation_data :=
                                                  optimisation_data ob @ [water_per_percent]\<rparr>)\<rparr>;
                             s3 = s2\<lparr>optimisation_data_collected :=
                                      optimisation_data_collected s2 + 1\<rparr>
                         in case add_log_entry s3 ''INFO'' of
                              Inl e \<Rightarrow> (Inl e, s3, d)
                            | Inr u \<Rightarrow>
                                if optimisation_data_collected s3 \<ge> data_points_required ob
                                then evaluate_optimisation s3 d
                                else (Inr (), s3, d))
                      else (add_log_entry s1 ''WARNING'', s1, d)))
      | _ \<Rightarrow> (Inl AttributeError, s, d))"

section \<open>Weather.py\<close>

text \<open>
  What the two weather functions hand back is either \<open>None\<close> or a pair. Both are declared
  \<open>async def\<close>: a call that is not awaited yields a coroutine object, which holds the value
  that awaiting it would give and runs nothing.
\<close>

datatype ('a, 'b) pyvalue = PyNone | PyPair 'a 'b | PyCoroutine "('a, 'b) pyvalue"

text \<open>
  The assignment \<open>a, b = v\<close>: \<open>None\<close> and a coroutine object are not iterable, and
  unpacking them raises \<open>TypeError\<close>.
\<close>

fun unpack2 :: "('a, 'b) pyvalue \<Rightarrow> error + 'a \<times> 'b" where
  "unpack2 PyNone = Inl TypeError"
| "unpack2 (PyPair a b) = Inr (a, b)"
| "unpack2 (PyCoroutine v) = Inl TypeError"

text \<open>
  \<open>fetch_and_store_weather_data\<close> asks the forecast service. Its outcome is a parameter:
  the record it stores and returns, or \<open>None\<close> when there are no settings or a request
  fails. A stored record replaces the cached one.
\<close>

definition fetch_and_store_weather_data ::
  "WeatherData option \<Rightarrow> Database \<Rightarrow> WeatherData option \<times> Database" where
  "fetch_and_store_weather_data fetched d =
     (case fetched of
        None \<Rightarrow> (None, d)
      | Some w \<Rightarrow> (Some w, d\<lparr>weatherdata := Some w\<rparr>))"

text \<open>
  The first half of both \<open>get_precipitation_data\<close> and \<open>get_sunrise_sunset_times\<close>: the
  cached record if there is one and it is at most an hour old, else the outcome of a
  refresh.
\<close>

definition cached_or_fetched ::
  "datetime \<Rightarrow> WeatherData option \<Rightarrow> Database \<Rightarrow> WeatherData option \<times> Database" where
  "cached_or_fetched now_aware fetched d =
     (case weatherdata d of
        None \<Rightarrow> fetch_and_store_weather_data fetched d
      | Some w \<Rightarrow>
          if now_aware - createdAt w > 3600 then fetch_and_store_weather_data fetched d
          else (Some w, d))"

definition get_precipitation_data ::
  "datetime \<Rightarrow> WeatherData option \<Rightarrow> Database \<Rightarrow> (real, real) pyvalue \<times> Database" where
  "get_precipitation_data now_aware fetched d =
     (case cached_or_fetched now_aware fetched d of
        (Some w, d') \<Rightarrow> (PyPair (mmOfRainfall w) (rainfallProbability w), d')
      | (None, d') \<Rightarrow> (PyNone, d'))"

definition get_sunrise_sunset_times ::
  "datetime \<Rightarrow> WeatherData option \<Rightarrow> Database \<Rightarrow>
     (datetime option, datetime option) pyvalue \<times> Database" where
  "get_sunrise_sunset_times now_aware fetched d =
     (case cached_or_fetched now_aware fetched d of
        (Some w, d') \<Rightarrow> (PyPair (Some (sunrise w)) (Some (sunset w)), d')
      | (None, d') \<Rightarrow> (PyPair None None, d'))"

section \<open>App.py\<close>

text \<open>
  \<open>datetime.strptime(text, '%H:%M')\<close>: one or two digits, a colon, one or two digits,
  hours up to 23 and minutes up to 59, anything else is a \<open>ValueError\<close>. The result lies
  on 1 January 1900, the day from which this model counts its seconds.
\<close>

definition digit_of :: "char \<Rightarrow> nat option" where
  "digit_of c =
     (if 48 \<le> (of_char c :: nat) \<and> (of_char c :: nat) \<le> 57
      then Some (of_char c - 48) else None)"

fun number_of :: "string \<Rightarrow> nat option" where
  "number_of [a] = digit_of a"
| "number_of [a, b] =
     (case (digit_of a, digit_of b) of
        (Some x, Some y) \<Rightarrow> Some (10 * x + y)
      | _ \<Rightarrow> None)"
| "number_of cs = None"

definition strptime_HM :: "string \<Rightarrow> error + datetime" where
  "strptime_HM txt =
     (case (number_of (takeWhile (\<lambda>c. c \<noteq> CHR '':'') txt),
            dropWhile (\<lambda>c. c \<noteq> CHR '':'') txt) of
        (Some h, c # rest) \<Rightarrow>
          (case number_of rest of
             Some m \<Rightarrow>
               if h \<le> 23 \<and> m \<le> 59 then Inr (int (h * 3600 + m * 60)) else Inl ValueError
           | None \<Rightarrow> Inl ValueError)
      | _ \<Rightarrow> Inl ValueError)"

text \<open>A comparison of a \<open>datetime\<close> with \<open>None\<close> raises \<open>TypeError\<close>.\<close>

definition lt_datetime :: "datetime \<Rightarrow> datetime option \<Rightarrow> error + bool" where
  "lt_datetime a b = (case b of None \<Rightarrow> Inl TypeError | Some t \<Rightarrow> Inr (a < t))"

definition gt_datetime :: "datetime \<Rightarrow> datetime option \<Rightarrow> error + bool" where
  "gt_datetime a b = (case b of None \<Rightarrow> Inl TypeError | Some t \<Rightarrow> Inr (a > t))"

text \<open>\<open>x or y\<close> where either side may raise: the right side is evaluated only if needed.\<close>

definition or_else :: "error + bool \<Rightarrow> error + bool \<Rightarrow> error + bool" where
  "or_else x y = (case x of Inl e \<Rightarrow> Inl e | Inr True \<Rightarrow> Inr True | Inr False \<Rightarrow> y)"

definition disable_system :: "System \<Rightarrow> System" where
  "disable_system s =
     (let s1 = s\<lparr>enabled := Some False, status := ''DISABLED''\<rparr>
      in case plant s1 of
           None \<Rightarrow> s1
         | Some p \<Rightarrow> s1\<lparr>plant := Some (p\<lparr>pump := cancel (pump p)\<rparr>)\<rparr>)"

text \<open>
  \<open>enable_system\<close>, up to the point where it starts \<open>run_loop\<close> as a task; the task is the
  function \<open>run_loop\<close> below, run on the state left here.
\<close>

definition enable_system :: "System \<Rightarrow> Database \<Rightarrow> System \<times> Database" where
  "enable_system s d =
     (s\<lparr>system_enabled := True, status := ''IDLE''\<rparr>, d\<lparr>settings_system_enabled := True\<rparr>)"

text \<open>
  \<open>initialize\<close>, after \<open>fetch_settings\<close> has copied the stored settings into the object.
  When the system is enabled it also starts \<open>run_loop\<close> as a task.
\<close>

definition initialize :: "System \<Rightarrow> System" where
  "initialize s =
     (let s1 = (if system_setup s then s\<lparr>is_setup := True\<rparr> else s);
          s2 = (if system_enabled s1 then s1\<lparr>enabled := Some True, status := ''IDLE''\<rparr>
                else s1\<lparr>status := ''DISABLED''\<rparr>);
          s3 = s2\<lparr>plant := Some (Plant_init (desired_soil_moisture s2))\<rparr>
      in s3\<lparr>optimisation := Some Optimisation_init\<rparr>)"

text \<open>
  \<open>collect_data\<close> never returns normally: each of its two branches ends in the lookup of
  \<open>add_log_entry\<close>. The loop of \<open>water_plant\<close> therefore cannot begin a second pass, which
  is what makes the recursion below terminate.
\<close>

lemma collect_data_raises: "fst (collect_data ev cl cm s d) = Inl AttributeError"
  by (simp add: collect_data_def add_log_entry_def Let_def split: option.splits)

lemma collect_data_not_Inr: "(Inr u, y) = collect_data ev cl cm s d \<Longrightarrow> False"
  using collect_data_raises [of ev cl cm s d] by (cases "collect_data ev cl cm s d") auto

text \<open>
  The \<open>try\<close> block of \<open>water_plant\<close>: the \<open>while\<close> loop as a recursion. \<open>Inl\<close> is an
  exception on its way to the handler; the \<open>return\<close> after a cancellation and the normal
  end of the loop both give \<open>Inr\<close>.
\<close>

function water_plant_loop ::
  "env \<Rightarrow> real \<Rightarrow> System \<Rightarrow> Database \<Rightarrow> (error + unit) \<times> System \<times> Database" where
  "water_plant_loop ev target_percentage s d =
     (case plant s of
        None \<Rightarrow> (Inl AttributeError, s, d)
      | Some p \<Rightarrow>
          if get_soil_moisture p < target_percentage
          then
            (if cancelRequested s then (Inr (), disable_system s, d)
             else
               (let s1 = s\<lparr>plant := Some (turn_on p)\<rparr>;
                    s2 = sleep ev 60 (sleep ev (water_cycle_length s1) s1)
                in case plant s2 of
                     None \<Rightarrow> (Inl AttributeError, s2, d)
                   | Some p2 \<Rightarrow>
                       (let current_moisture = get_soil_moisture p2
                        in if current_moisture \<ge> target_percentage then (Inr (), s2, d)
                           else
                             (case collect_data ev (water_cycle_length s2) current_moisture s2 d of
                                (Inl e, s3, d3) \<Rightarrow> (Inl e, s3, d3)
                              | (Inr u, s3, d3) \<Rightarrow> water_plant_loop ev target_percentage s3 d3))))
          else (Inr (), s, d))"
  by pat_completeness auto
termination
  apply (relation "{}")
   apply simp
  apply (auto dest: collect_data_not_Inr)
  done

declare water_plant_loop.simps [simp del]

text \<open>\<open>water_plant\<close>: the \<open>try\<close> block and its handler \<open>except Exception\<close>.\<close>

definition water_plant ::
  "env \<Rightarrow> real \<Rightarrow> System \<Rightarrow> Database \<Rightarrow> (error + unit) \<times> System \<times> Database" where
  "water_plant ev target_percentage s d =
     (case water_plant_loop ev target_percentage s d of
        (Inl e, s', d') \<Rightarrow> (Inr (), disable_system s', d')
      | (Inr u, s', d') \<Rightarrow> (Inr (), s', d'))"

text \<open>The condition that \<open>monitor_plant\<close> writes out three times.\<close>

definition danger_triggered :: "System \<Rightarrow> real \<Rightarrow> bool" where
  "danger_triggered s currentSoilMoisture =
     (danger_mode_enabled s \<and> danger_mode_bypass_enabled s \<and>
      currentSoilMoisture \<le>
        (danger_mode_level s / 100) * operating_settings_desired_moisture_level s)"

text \<open>The two tests on the time of day (lines 249 to 257); other modes have none.\<close>

definition outside_operating_hours ::
  "System \<Rightarrow> datetime \<Rightarrow> datetime option \<Rightarrow> datetime option \<Rightarrow> error + bool" where
  "outside_operating_hours s current_time sunrise_time sunset_time =
     (if operating_hours_mode s = ''auto''
      then or_else (lt_datetime current_time sunrise_time) (gt_datetime current_time sunset_time)
      else if operating_hours_mode s = ''manual''
      then (case strptime_HM (operating_hours_start s) of
              Inl e \<Rightarrow> Inl e
            | Inr opening \<Rightarrow>
                if current_time < opening then Inr True
                else (case strptime_HM (operating_hours_end s) of
                        Inl e \<Rightarrow> Inl e
                      | Inr closing \<Rightarrow> Inr (current_time > closing)))
      else Inr False)"

definition postpone :: "datetime \<Rightarrow> System \<Rightarrow> System" where
  "postpone current_time s =
     s\<lparr>postponedWater :=
         \<lparr>postponed = True, postponedAt = Some current_time,
          postponedBy = Some ''Weather Detection''\<rparr>\<rparr>"

text \<open>
  \<open>monitor_plant\<close> from line 238 on: the decision, given the four values that lines 235
  and 236 are meant to bind.
\<close>

definition monitor_plant_decide ::
  "env \<Rightarrow> datetime \<Rightarrow> datetime option \<Rightarrow> datetime option \<Rightarrow> real \<Rightarrow> real \<Rightarrow>
     System \<Rightarrow> Database \<Rightarrow> (error + unit) \<times> System \<times> Database" where
  "monitor_plant_decide ev current_time sunrise_time sunset_time amount_of_rainfall
       probability_of_rain s d =
     (case plant s of
        None \<Rightarrow> (Inl AttributeError, s, d)
      | Some p \<Rightarrow>
          (let currentSoilMoisture = get_soil_moisture p;
               desiredSoilMoisture = operating_settings_desired_moisture_level s;
               triggerAt = (operating_settings_water_threshold s / 100) * desiredSoilMoisture
           in if (operating_hours_mode s = ''auto'' \<or> operating_hours_mode s = ''manual'') \<and>
                 danger_triggered s currentSoilMoisture
              then water_plant ev (danger_mode_bypass_water_percentage s) s d
              else
                (case outside_operating_hours s current_time sunrise_time sunset_time of
                   Inl e \<Rightarrow> (Inl e, s, d)
                 | Inr True \<Rightarrow> (Inr (), s, d)
                 | Inr False \<Rightarrow>
                     if get_soil_moisture p \<le> triggerAt
                     then
                       (if weather_detection_enabled s
                        then
                          (if weather_detection_mode s = ''AND''
                           then
                             (if amount_of_rainfall \<ge> weather_detection_postpone_mm s \<and>
                                 probability_of_rain \<ge> weather_detection_postpone_percentage s
                              then
                                (if danger_triggered s currentSoilMoisture
                                 then water_plant ev (danger_mode_bypass_water_percentage s) s d
                                 else (Inr (), postpone current_time s, d))
                              else water_plant ev triggerAt s d)
                           else if weather_detection_mode s = ''OR''
                           then
                             (if amount_of_rainfall \<ge> weather_detection_postpone_mm s \<or>
                                 probability_of_rain \<ge> weather_detection_postpone_percentage s
                              then
                                (if danger_triggered s currentSoilMoisture
                                 then water_plant ev (danger_mode_bypass_water_percentage s) s d
                                 else (Inr (), postpone current_time s, d))
                              else water_plant ev triggerAt s d)
                           else water_plant ev triggerAt s d)
                        else water_plant ev triggerAt s d)
                     else (Inr (), s, d))))"

text \<open>
  \<open>monitor_plant\<close> as it stands. Lines 235 and 236 call the two weather functions
  without \<open>await\<close> and unpack what the calls give, which is a coroutine object each time;
  the weather functions themselves do not run, and the database is not touched. The
  argument \<open>fetched\<close> is the forecast service's outcome, had they run.
\<close>

definition monitor_plant ::
  "env \<Rightarrow> datetime \<Rightarrow> WeatherData option \<Rightarrow> System \<Rightarrow> Database \<Rightarrow>
     (error + unit) \<times> System \<times> Database" where
  "monitor_plant ev current_time fetched s d =
     (case unpack2 (PyCoroutine (fst (get_sunrise_sunset_times current_time fetched d))) of
        Inl e \<Rightarrow> (Inl e, s, d)
      | Inr (sunrise_time, sunset_time) \<Rightarrow>
          (case unpack2 (PyCoroutine (fst (get_precipitation_data current_time fetched d))) of
             Inl e \<Rightarrow> (Inl e, s, d)
           | Inr (amount_of_rainfall, probability_of_rain) \<Rightarrow>
               monitor_plant_decide ev current_time sunrise_time sunset_time amount_of_rainfall
                 probability_of_rain s d))"

text \<open>
  \<open>run_loop\<close>. The first argument bounds the number of passes (\<open>None\<close>: the bound was
  reached with the loop still running), the second counts the passes completed, and
  \<open>clock\<close> and \<open>service\<close> give the time and the forecast service's outcome at each pass.
  Reading \<open>self.enabled\<close> while the attribute does not exist raises \<open>AttributeError\<close>;
  nothing in \<open>run_loop\<close> catches an exception.
\<close>

fun run_loop ::
  "nat \<Rightarrow> nat \<Rightarrow> env \<Rightarrow> (nat \<Rightarrow> datetime) \<Rightarrow> (nat \<Rightarrow> WeatherData option) \<Rightarrow> System \<Rightarrow> Database \<Rightarrow>
     ((error + unit) \<times> nat \<times> System \<times> Database) option" where
  "run_loop 0 k ev clock service s d = None"
| "run_loop (Suc fuel) k ev clock service s d =
     (case enabled s of
        None \<Rightarrow> Some (Inl AttributeError, k, s, d)
      | Some False \<Rightarrow> Some (Inr (), k, s, d)
      | Some True \<Rightarrow>
          (case monitor_plant ev (clock k) (service k) s d of
             (Inl e, s', d') \<Rightarrow> Some (Inl e, k, s', d')
           | (Inr u, s', d') \<Rightarrow>
               run_loop fuel (Suc k) ev clock service (sleep ev (check_rate s' / 1000) s') d'))"




section \<open>Concrete states and environments\<close>

text \<open>
  States and environments at which the statements below are evaluated: the system as
  \<open>initialize\<close> leaves it when the stored settings are the defaults with the system
  enabled, the same with the plant's level or the sample sequence set, an empty database
  and one with a cached forecast of rain, and three behaviours of the world during a
  sleep: nothing moves, the pump thread runs its three passes of a five-second cycle, the
  level rises by 20 during a cycle.
\<close>

definition started :: System where
  "started = initialize (System_init\<lparr>system_enabled := True\<rparr>)"

definition at_level :: "real \<Rightarrow> System \<Rightarrow> System" where
  "at_level m s = s\<lparr>plant := map_option (\<lambda>p. p\<lparr>soil_moisture_level := m\<rparr>) (plant s)\<rparr>"

definition with_samples :: "real list \<Rightarrow> System \<Rightarrow> System" where
  "with_samples xs s =
     s\<lparr>optimisation := map_option (\<lambda>ob. ob\<lparr>optimisation_data := xs\<rparr>) (optimisation s)\<rparr>"

definition empty_db :: Database where
  "empty_db = \<lparr>settings_system_enabled = False, water_per_percent = None, weatherdata = None\<rparr>"

definition rainy_db :: Database where
  "rainy_db =
     empty_db\<lparr>weatherdata :=
       Some \<lparr>createdAt = 43000, mmOfRainfall = 6, rainfallProbability = 40,
             sunrise = 21600, sunset = 64800\<rparr>\<rparr>"

definition still :: env where
  "still seconds p = p"


definition rising :: env where
  "rising seconds p =
     (if seconds = 60 then p else p\<lparr>soil_moisture_level := soil_moisture_level p + 20\<rparr>)"

section \<open>Properties of the plant and the pump\<close>

lemma decrease_step_floor: "0 \<le> soil_moisture_level (decrease_soil_moisture_step p)"
  by (simp add: decrease_soil_moisture_step_def Let_def)

lemma decrease_step_value:
  "soil_moisture_level (decrease_soil_moisture_step p) =
     max 0 (soil_moisture_level p - moisture_depletion_rate p)"
  by (simp add: decrease_soil_moisture_step_def Let_def max_def)

lemma decrease_step_upper:
  "0 \<le> moisture_depletion_rate p \<Longrightarrow> soil_moisture_level p \<le> 100 \<Longrightarrow>
   soil_moisture_level (decrease_soil_moisture_step p) \<le> 100"
  by (simp add: decrease_soil_moisture_step_def Let_def)

lemma add_water_range:
  "0 \<le> soil_moisture_level p \<Longrightarrow> soil_moisture_level p \<le> 100 \<Longrightarrow>
   0 \<le> soil_moisture_level (add_water p) \<and> soil_moisture_level (add_water p) \<le> 100"
  by (simp add: add_water_def Let_def)

lemma add_water_on_value:
  "is_on (pump p) \<Longrightarrow>
   soil_moisture_level (add_water p) = min 1 (soil_moisture_level p + 0.5)"
  by (simp add: add_water_def Let_def min_def)

text \<open>
  C8. On the 0-100 scale a water increment applied at level 50 should give 50.5 (add the
  fixed amount, clamp at 100). \<open>Pump.add_water\<close> clamps at 1.0 instead: with the pump on,
  the level drops from 50 to 1. The depletion pass does what is claimed (level 0.05 with
  rate 0.1 is floored to 0).
\<close>

theorem add_water_clamps_at_one:
  "soil_moisture_level (add_water ((turn_on (Plant_init 50)))) = 1 \<and>
   soil_moisture_level (add_water ((turn_on (Plant_init 50)))) \<noteq> 50.5 \<and>
   soil_moisture_level (decrease_soil_moisture_step (Plant_init 0.05)) = 0"
  by (simp add: add_water_def turn_on_def Plant_init_def Pump_init_def
      decrease_soil_moisture_step_def Let_def)

section \<open>Properties of the calibration engine\<close>

lemma sleep_plant [simp]: "plant (sleep ev t s) = map_option (ev t) (plant s)"
  by (simp add: sleep_def)

lemma sleep_other [simp]:
  "optimisation (sleep ev t s) = optimisation s"
  "optimisation_data_collected (sleep ev t s) = optimisation_data_collected s"
  "postponedWater (sleep ev t s) = postponedWater s"
  "water_cycle_length (sleep ev t s) = water_cycle_length s"
  "status (sleep ev t s) = status s"
  "enabled (sleep ev t s) = enabled s"
  by (simp_all add: sleep_def)

lemma started_simps:
  "plant started = Some (Plant_init 100)"
  "optimisation started = Some Optimisation_init"
  "enabled started = Some True"
  "status started = ''IDLE''"
  "water_cycle_length started = 5"
  "cancelRequested started = False"
  by (simp_all add: started_def initialize_def System_init_def Let_def)

text \<open>
  \<open>evaluate_optimisation\<close> always ends in an exception and never changes the system or
  the database: on an empty sample sequence the division raises, on a consistent one the
  write to the database raises, on an inconsistent one the lookup of \<open>add_log_entry\<close>.
\<close>

lemma evaluate_optimisation_always_raises:
  "\<exists>e. fst (evaluate_optimisation s d) = Inl e"
  by (simp add: evaluate_optimisation_def add_log_entry_def save_optimisation_data_def Let_def
      split: option.splits)


text \<open>
  C4. Ten samples of 4 have mean 4 and no deviation, so \<open>evaluate_optimisation\<close> takes the
  branch that validates and calls \<open>save_optimisation_data\<close> with 4. The call raises, and the
  database holds no ratio afterwards, where 4 should have been stored. (Eight samples of
  5 with a 4 and a 6 have mean 5, the 6 lies 20 percent above it: the other branch is
  taken, nothing is stored and the samples are kept, as claimed.)
\<close>

theorem evaluate_optimisation_persists_nothing:
  "evaluate_optimisation (with_samples [4, 4, 4, 4, 4, 4, 4, 4, 4, 4] started) empty_db =
     (Inl PrismaError, with_samples [4, 4, 4, 4, 4, 4, 4, 4, 4, 4] started, empty_db) \<and>
   water_per_percent empty_db = None \<and>
   evaluate_optimisation (with_samples [5, 5, 5, 5, 5, 5, 5, 5, 4, 6] started) empty_db =
     (Inl AttributeError, with_samples [5, 5, 5, 5, 5, 5, 5, 5, 4, 6] started, empty_db)"
  by (simp add: evaluate_optimisation_def add_log_entry_def save_optimisation_data_def Let_def
      with_samples_def started_simps Optimisation_init_def empty_db_def)

text \<open>
  With an increase that is not positive, \<open>collect_data\<close> appends nothing, counts nothing
  and evaluates nothing; the only change is what the world did to the plant during the
  two sleeps. It then raises where it means to log its warning.
\<close>

lemma collect_data_no_increase:
  assumes "optimisation s = Some ob" and "plant s = Some p0"
    and "get_soil_moisture (ev 60 (ev cl p0)) - get_soil_moisture p0 \<le> 0"
  shows "collect_data ev cl cm s d = (Inl AttributeError, sleep ev 60 (sleep ev cl s), d)"
  using assms by (simp add: collect_data_def add_log_entry_def Let_def)




section \<open>Properties of the watering procedure\<close>

text \<open>
  One pass decides the loop of \<open>water_plant\<close>: either it ends the loop, or it hands over to
  \<open>collect_data\<close>, whose exception leaves the \<open>try\<close> block.
\<close>

lemma water_plant_loop_unfold:
  "water_plant_loop ev target_percentage s d =
     (case plant s of
        None \<Rightarrow> (Inl AttributeError, s, d)
      | Some p \<Rightarrow>
          if get_soil_moisture p < target_percentage
          then
            (if cancelRequested s then (Inr (), disable_system s, d)
             else
               (let s2 = sleep ev 60 (sleep ev (water_cycle_length s) (s\<lparr>plant := Some (turn_on p)\<rparr>));
                    p2 = ev 60 (ev (water_cycle_length s) (turn_on p))
                in if get_soil_moisture p2 \<ge> target_percentage then (Inr (), s2, d)
                   else collect_data ev (water_cycle_length s) (get_soil_moisture p2) s2 d))
          else (Inr (), s, d))"
proof -
  have c: "\<And>cl cm s2. (case collect_data ev cl cm s2 d of
              (Inl e, s3, d3) \<Rightarrow> (Inl e, s3, d3)
            | (Inr u, s3, d3) \<Rightarrow> water_plant_loop ev target_percentage s3 d3) =
           collect_data ev cl cm s2 d"
    subgoal for cl cm s2
      using collect_data_raises [of ev cl cm s2 d]
      by (cases "collect_data ev cl cm s2 d") (auto split: sum.splits)
    done
  show ?thesis
    by (subst water_plant_loop.simps) (simp add: Let_def c split: option.splits)
qed

text \<open>
  The \<open>try\<close> block raises exactly when there is no plant, or when a first cycle is run
  and does not reach the target.
\<close>

lemma water_plant_loop_raises_iff:
  "(\<exists>e. fst (water_plant_loop ev target s d) = Inl e) \<longleftrightarrow>
     (case plant s of
        None \<Rightarrow> True
      | Some p \<Rightarrow>
          get_soil_moisture p < target \<and> \<not> cancelRequested s \<and>
          get_soil_moisture (ev 60 (ev (water_cycle_length s) (turn_on p))) < target)"
  by (auto simp add: water_plant_loop_unfold Let_def collect_data_raises split: option.splits)

lemma water_plant_returns: "fst (water_plant ev target s d) = Inr ()"
  by (cases "water_plant_loop ev target s d" rule: prod_cases3)
     (auto simp: water_plant_def split: sum.splits)

lemma disable_system_fields [simp]:
  "status (disable_system s) = ''DISABLED''"
  "enabled (disable_system s) = Some False"
  "postponedWater (disable_system s) = postponedWater s"
  "optimisation (disable_system s) = optimisation s"
  "optimisation_data_collected (disable_system s) = optimisation_data_collected s"
  by (simp_all add: disable_system_def Let_def split: option.splits)

lemma disable_system_plant [simp]:
  "plant (disable_system s) = map_option (\<lambda>p. p\<lparr>pump := cancel (pump p)\<rparr>) (plant s)"
  by (simp add: disable_system_def Let_def split: option.splits)

text \<open>
  C5. Whenever the \<open>try\<close> block of \<open>water_plant\<close> raises an exception, \<open>water_plant\<close>
  itself returns normally, in the state the handler's \<open>disable_system\<close> makes of the state
  at the raise: the status is DISABLED, \<open>enabled\<close> is false, and the pump of the plant, if
  there is a plant, has been sent \<open>cancel\<close>.
\<close>

theorem water_plant_catches:
  assumes "water_plant_loop ev target s d = (Inl e, s', d')"
  shows "water_plant ev target s d = (Inr (), disable_system s', d') \<and>
         status (disable_system s') = ''DISABLED'' \<and>
         enabled (disable_system s') = Some False \<and>
         plant (disable_system s') = map_option (\<lambda>p. p\<lparr>pump := cancel (pump p)\<rparr>) (plant s')"
  using assms by (simp add: water_plant_def)

text \<open>
  Watering to 20 from level 15 in a world where nothing moves: the first cycle does not
  reach the target, \<open>collect_data\<close> raises, and \<open>water_plant\<close> returns with the system
  disabled and the running pump told to cancel.
\<close>

theorem water_plant_catches_witness:
  "water_plant_loop still 20 (at_level 15 started) empty_db =
     (Inl AttributeError,
      (at_level 15 started)
        \<lparr>plant := Some (turn_on ((Plant_init 100)\<lparr>soil_moisture_level := 15\<rparr>))\<rparr>,
      empty_db) \<and>
   fst (water_plant still 20 (at_level 15 started) empty_db) = Inr () \<and>
   status (fst (snd (water_plant still 20 (at_level 15 started) empty_db))) = ''DISABLED'' \<and>
   map_option pump (plant (fst (snd (water_plant still 20 (at_level 15 started) empty_db)))) =
     Some \<lparr>is_on = True, cancel_requested = True\<rparr>"
proof -
  have l: "water_plant_loop still 20 (at_level 15 started) empty_db =
     (Inl AttributeError,
      (at_level 15 started)
        \<lparr>plant := Some (turn_on ((Plant_init 100)\<lparr>soil_moisture_level := 15\<rparr>))\<rparr>,
      empty_db)"
    by (simp add: water_plant_loop_unfold at_level_def started_simps Let_def still_def
        collect_data_def add_log_entry_def get_soil_moisture_def Plant_init_def turn_on_def
        sleep_def)
  show ?thesis
    using water_plant_catches [OF l] l
    by (simp add: turn_on_def Plant_init_def Pump_init_def cancel_def)
qed

text \<open>
  C9. A call at level 50 before and 50 after: no sample is appended and the count stays
  0, but the call does not end with a warning. It raises \<open>AttributeError\<close>, and
  \<open>water_plant\<close>, from which it is called, answers the exception by disabling the system
  (here on the way from 50 to a target of 60).
\<close>

theorem collect_data_zero_increase_raises:
  "collect_data still 5 50 (at_level 50 started) empty_db =
     (Inl AttributeError, at_level 50 started, empty_db) \<and>
   optimisation (at_level 50 started) = Some Optimisation_init \<and>
   optimisation_data_collected (at_level 50 started) = 0 \<and>
   status (at_level 50 started) = ''IDLE'' \<and>
   status (fst (snd (water_plant still 60 (at_level 50 started) empty_db))) = ''DISABLED'' \<and>
   enabled (fst (snd (water_plant still 60 (at_level 50 started) empty_db))) = Some False"
  by (simp add: collect_data_def add_log_entry_def Let_def at_level_def started_def
      initialize_def System_init_def still_def get_soil_moisture_def Plant_init_def
      sleep_def water_plant_def water_plant_loop_unfold turn_on_def disable_system_def
      cancel_def)


section \<open>Properties of the monitor loop\<close>

text \<open>
  C2. \<open>enable_system\<close> sets \<open>system_enabled\<close>, stores it and sets the status to IDLE, but
  the guard of \<open>run_loop\<close> reads \<open>enabled\<close>, which \<open>enable_system\<close> does not assign. After
  \<open>initialize\<close> on the default settings (system not enabled) the attribute does not exist
  and the loop raises at its guard; after \<open>disable_system\<close> it is false and the loop returns
  at once. In both cases no pass of the loop is made. Where \<open>initialize\<close> had set the
  attribute, the guard holds and the first pass ends the loop with the \<open>TypeError\<close> of
  \<open>monitor_plant\<close>, the system still enabled.
\<close>

theorem run_loop_after_enable:
  "(case enable_system (initialize System_init) empty_db of
      (s, d) \<Rightarrow>
        system_enabled s \<and> status s = ''IDLE'' \<and> settings_system_enabled d \<and>
        enabled s = None \<and>
        run_loop (Suc n) 0 ev clock service s d = Some (Inl AttributeError, 0, s, d)) \<and>
   (case enable_system (disable_system started) empty_db of
      (s, d) \<Rightarrow>
        system_enabled s \<and> status s = ''IDLE'' \<and> settings_system_enabled d \<and>
        enabled s = Some False \<and>
        run_loop (Suc n) 0 ev clock service s d = Some (Inr (), 0, s, d)) \<and>
   (case enable_system started empty_db of
      (s, d) \<Rightarrow>
        enabled s = Some True \<and>
        run_loop (Suc n) 0 ev clock service s d = Some (Inl TypeError, 0, s, d))"
  by (simp add: enable_system_def initialize_def System_init_def Let_def started_def
      disable_system_def monitor_plant_def)

section \<open>Properties of the decision step\<close>


text \<open>What the decision from line 238 on does with the values it is meant to receive.\<close>

lemma decide_danger_override:
  assumes "plant s = Some p"
    and "operating_hours_mode s = ''auto'' \<or> operating_hours_mode s = ''manual''"
    and "danger_triggered s (get_soil_moisture p)"
  shows "monitor_plant_decide ev t sr ss rain prob s d =
           water_plant ev (danger_mode_bypass_water_percentage s) s d"
  using assms by (simp add: monitor_plant_decide_def Let_def)

lemma decide_outside_hours:
  assumes "plant s = Some p"
    and "\<not> danger_triggered s (get_soil_moisture p)"
    and "outside_operating_hours s t sr ss = Inr True"
  shows "monitor_plant_decide ev t sr ss rain prob s d = (Inr (), s, d)"
  using assms by (simp add: monitor_plant_decide_def Let_def)

lemma decide_weather_step:
  assumes "plant s = Some p"
    and "\<not> danger_triggered s (get_soil_moisture p)"
    and "outside_operating_hours s t sr ss = Inr False"
    and "get_soil_moisture p \<le>
           (operating_settings_water_threshold s / 100) * operating_settings_desired_moisture_level s"
    and "weather_detection_enabled s"
  shows "monitor_plant_decide ev t sr ss rain prob s d =
           (if (weather_detection_mode s = ''AND'' \<and>
                rain \<ge> weather_detection_postpone_mm s \<and>
                prob \<ge> weather_detection_postpone_percentage s) \<or>
               (weather_detection_mode s = ''OR'' \<and>
                (rain \<ge> weather_detection_postpone_mm s \<or>
                 prob \<ge> weather_detection_postpone_percentage s))
            then (Inr (), postpone t s, d)
            else water_plant ev
                   ((operating_settings_water_threshold s / 100) *
                      operating_settings_desired_moisture_level s) s d)"
  using assms by (auto simp add: monitor_plant_decide_def Let_def)

lemma collect_data_postponedWater:
  "postponedWater (fst (snd (collect_data ev cl cm s d))) = postponedWater s"
  by (simp add: collect_data_def add_log_entry_def Let_def split: option.splits)

lemma water_plant_loop_postponedWater:
  "postponedWater (fst (snd (water_plant_loop ev target s d))) = postponedWater s"
  by (simp add: water_plant_loop_unfold Let_def collect_data_postponedWater
      split: option.splits)

lemma water_plant_postponedWater:
  "postponedWater (fst (snd (water_plant ev target s d))) = postponedWater s"
  using water_plant_loop_postponedWater [of ev target s d]
  by (cases "water_plant_loop ev target s d" rule: prod_cases3)
     (auto simp: water_plant_def split: sum.splits)

lemma postpone_record:
  "postponedWater (postpone t s) =
     \<lparr>postponed = True, postponedAt = Some t, postponedBy = Some ''Weather Detection''\<rparr>"
  by (simp add: postpone_def)

lemma monitor_plant_decide_postponedWater:
  "postponedWater (fst (snd (monitor_plant_decide ev t sr ss rain prob s d))) = postponedWater s \<or>
   postponedWater (fst (snd (monitor_plant_decide ev t sr ss rain prob s d))) =
     \<lparr>postponed = True, postponedAt = Some t, postponedBy = Some ''Weather Detection''\<rparr>"
  by (simp add: monitor_plant_decide_def Let_def water_plant_postponedWater postpone_record
      split: option.splits sum.splits bool.splits)

text \<open>
  C1. A tick with the default settings (danger mode and bypass on, danger level 10, mode
  auto) and the plant at level 5: the danger condition holds, and \<open>monitor_plant\<close> raises
  \<open>TypeError\<close> and leaves the state as it was, so nothing is watered. Apart from that, the
  decision makes its first danger test only in the modes auto and manual: in another
  mode, with no rain forecast, it waters to the trigger level 20 and not to the bypass
  percentage 40 (with the level rising to 25 in the cycle the two differ: the first call
  is content, the second goes on to \<open>collect_data\<close>).
\<close>

theorem danger_tick_raises:
  "danger_triggered (at_level 5 started) 5 \<and>
   operating_hours_mode (at_level 5 started) = ''auto'' \<and>
   monitor_plant ev t f (at_level 5 started) d = (Inl TypeError, at_level 5 started, d) \<and>
   monitor_plant_decide rising t sr ss 0 0
       ((at_level 5 started)\<lparr>operating_hours_mode := ''off''\<rparr>) empty_db =
     water_plant rising 20 ((at_level 5 started)\<lparr>operating_hours_mode := ''off''\<rparr>) empty_db \<and>
   status (fst (snd (water_plant rising 20
       ((at_level 5 started)\<lparr>operating_hours_mode := ''off''\<rparr>) empty_db))) = ''IDLE'' \<and>
   status (fst (snd (water_plant rising 40
       ((at_level 5 started)\<lparr>operating_hours_mode := ''off''\<rparr>) empty_db))) = ''DISABLED''"
  by (simp add: monitor_plant_def monitor_plant_decide_def Let_def at_level_def started_def
      initialize_def System_init_def danger_triggered_def get_soil_moisture_def Plant_init_def
      outside_operating_hours_def water_plant_def water_plant_loop_unfold rising_def
      turn_on_def sleep_def collect_data_def add_log_entry_def Optimisation_init_def
      disable_system_def)

text \<open>
  C3. A tick at noon between sunrise and sunset, mode AND with thresholds 5 mm and 35
  percent, the plant at level 15 (at most the trigger level 20, above the danger level
  10), and a fresh cached forecast of 6 mm at 40 percent. Awaited, the weather functions
  would give that forecast, and the decision from line 238 on would record the
  postponement. \<open>monitor_plant\<close> raises \<open>TypeError\<close> before it, and the record stays as
  \<open>__init__\<close> made it.
\<close>

theorem rain_tick_raises:
  "get_precipitation_data 43200 f rainy_db = (PyPair 6 40, rainy_db) \<and>
   get_sunrise_sunset_times 43200 f rainy_db = (PyPair (Some 21600) (Some 64800), rainy_db) \<and>
   monitor_plant_decide ev 43200 (Some 21600) (Some 64800) 6 40 (at_level 15 started) rainy_db =
     (Inr (), postpone 43200 (at_level 15 started), rainy_db) \<and>
   monitor_plant ev 43200 f (at_level 15 started) rainy_db =
     (Inl TypeError, at_level 15 started, rainy_db) \<and>
   postponedWater (at_level 15 started) =
     \<lparr>postponed = False, postponedAt = None, postponedBy = None\<rparr>"
  by (simp add: get_precipitation_data_def get_sunrise_sunset_times_def cached_or_fetched_def
      rainy_db_def empty_db_def monitor_plant_def monitor_plant_decide_def Let_def at_level_def
      started_def initialize_def System_init_def postpone_def danger_triggered_def
      get_soil_moisture_def Plant_init_def outside_operating_hours_def or_else_def
      lt_datetime_def gt_datetime_def)

text \<open>
  C6. With no cached record and a refresh that yields none, \<open>get_precipitation_data\<close>
  returns a bare \<open>None\<close>, which cannot be unpacked into two names; as it stands,
  \<open>monitor_plant\<close> raises already on the coroutine object. The exception passes through
  \<open>run_loop\<close>, which ends in its first pass with the system still enabled.
\<close>

theorem weather_unavailable_ends_loop:
  "get_precipitation_data t None empty_db = (PyNone, empty_db) \<and>
   unpack2 (fst (get_precipitation_data t None empty_db)) = Inl TypeError \<and>
   monitor_plant ev t None (at_level 15 started) empty_db =
     (Inl TypeError, at_level 15 started, empty_db) \<and>
   enabled (at_level 15 started) = Some True \<and>
   run_loop (Suc n) 0 ev clock (\<lambda>k. None) (at_level 15 started) empty_db =
     Some (Inl TypeError, 0, at_level 15 started, empty_db)"
  by (simp add: get_precipitation_data_def cached_or_fetched_def
      fetch_and_store_weather_data_def empty_db_def monitor_plant_def at_level_def
      started_simps)

text \<open>
  The decision from line 238 on, run on values in place of the two coroutine objects,
  would record a postponement and would keep it through a later watering: nothing in it
  clears the record.
\<close>

lemma decide_keeps_postponement:
  "monitor_plant_decide rising 43200 (Some 21600) (Some 64800) 6 40 (at_level 15 started) empty_db =
     (Inr (), postpone 43200 (at_level 15 started), empty_db) \<and>
   monitor_plant_decide rising 43260 (Some 21600) (Some 64800) 0 0
       (postpone 43200 (at_level 15 started)) empty_db =
     water_plant rising 20 (postpone 43200 (at_level 15 started)) empty_db \<and>
   postponedWater (fst (snd (water_plant rising 20 (postpone 43200 (at_level 15 started)) empty_db))) =
     \<lparr>postponed = True, postponedAt = Some 43200, postponedBy = Some ''Weather Detection''\<rparr>"
  by (simp add: monitor_plant_decide_def Let_def at_level_def started_def initialize_def
      System_init_def postpone_def danger_triggered_def get_soil_moisture_def Plant_init_def
      outside_operating_hours_def or_else_def lt_datetime_def gt_datetime_def
      water_plant_def water_plant_loop_unfold rising_def turn_on_def sleep_def)




end
